theory Spec2Isabelle
  imports Main "HOL-Library.Word"
begin

unbundle bit_operations_syntax

section \<open>RTMP handshake: a shallow embedding of rtmpy\<close>

text \<open>
  The embedding follows \<^verbatim>\<open>rtmpy/protocol/handshake.py\<close>, the module that holds the
  complete negotiators (version byte, syn, ack). The package
  \<^verbatim>\<open>rtmpy/protocol/handshake/__init__.py\<close> has the same \<^verbatim>\<open>Packet\<close>, the same
  \<^verbatim>\<open>dataReceived\<close> and the same bodies of \<^verbatim>\<open>ackReceived\<close>; its negotiators are abstract
  (\<^verbatim>\<open>buildSynPayload\<close> raises \<^verbatim>\<open>NotImplementedError\<close>) and its \<^verbatim>\<open>_process\<close> has no version
  stage, so it is not the one that is run here.

  Python attributes that may be \<^verbatim>\<open>None\<close> are options, exceptions are values of the
  datatype \<open>error\<close>, and every method that mutates \<^verbatim>\<open>self\<close> takes the object and
  returns it updated, together with the exception it raised, if any.
\<close>

type_synonym byte = "8 word"
type_synonym bytes = "byte list"
type_synonym word32 = "32 word"

subsection \<open>Exceptions\<close>

text \<open>
  The exception classes of the module, and the ones of the Python runtime and of the
  byte stream that the modelled code can meet. \<open>base_class\<close> is the class statement's
  parent: \<^verbatim>\<open>class VerificationError(HandshakeError)\<close> and so on.
\<close>

datatype error =
    BaseError
  | HandshakeError
  | ProtocolVersionError
  | ProtocolTooHigh
  | ProtocolDegraded
  | VerificationError
  | InsufficientData
  | TypeError
  | AttributeError
  | ValueError
  | IndexError

fun base_class :: "error \<Rightarrow> error option" where
  "base_class HandshakeError = Some BaseError"
| "base_class ProtocolVersionError = Some HandshakeError"
| "base_class ProtocolTooHigh = Some ProtocolVersionError"
| "base_class ProtocolDegraded = Some ProtocolVersionError"
| "base_class VerificationError = Some HandshakeError"
| "base_class e = None"

text \<open>\<open>isinstance e c\<close>: an exception of class \<open>e\<close> is caught by \<^verbatim>\<open>except c\<close>. The
  hierarchy is three levels deep, so three steps up the parents suffice.\<close>

definition isinstance :: "error \<Rightarrow> error \<Rightarrow> bool" where
  "isinstance e c =
     (e = c \<or> base_class e = Some c
      \<or> (case base_class e of None \<Rightarrow> False | Some p \<Rightarrow> base_class p = Some c)
      \<or> (case base_class e of None \<Rightarrow> False
          | Some p \<Rightarrow> (case base_class p of None \<Rightarrow> False | Some q \<Rightarrow> base_class q = Some c)))"

subsection \<open>The byte stream\<close>

definition HANDSHAKE_LENGTH :: nat where
  "HANDSHAKE_LENGTH = 1536"

definition RTMP_PROTOCOL_VERSION :: byte where
  "RTMP_PROTOCOL_VERSION = 3"

definition MAX_PROTOCOL_VERSION :: byte where
  "MAX_PROTOCOL_VERSION = 31"

text \<open>
  Modelled from the spec: \<^verbatim>\<open>util.BufferedByteStream\<close> (module \<^verbatim>\<open>rtmpy.util\<close>) is used by
  the handshake but is not part of the sources. It is a seekable byte buffer: the
  whole contents (\<^verbatim>\<open>getvalue\<close>) and a read/write position (\<^verbatim>\<open>tell\<close>). Reading takes
  bytes at the position and advances it, failing with \<open>InsufficientData\<close> when fewer
  bytes are left; \<^verbatim>\<open>append\<close> adds at the end and keeps the position; writing puts bytes
  at the position; \<^verbatim>\<open>truncate()\<close> empties the buffer. The unsigned 32-bit integers
  are big-endian.
\<close>

record BufferedByteStream =
  content :: bytes
  tell :: nat

definition BufferedByteStream_init :: "bytes \<Rightarrow> BufferedByteStream" where
  "BufferedByteStream_init d = \<lparr>content = d, tell = 0\<rparr>"

definition getvalue :: "BufferedByteStream \<Rightarrow> bytes" where
  "getvalue b = content b"

definition remaining :: "BufferedByteStream \<Rightarrow> nat" where
  "remaining b = length (content b) - tell b"

definition append_bytes :: "bytes \<Rightarrow> BufferedByteStream \<Rightarrow> BufferedByteStream" where
  "append_bytes d b = b\<lparr>content := content b @ d\<rparr>"

definition truncate_stream :: "BufferedByteStream \<Rightarrow> BufferedByteStream" where
  "truncate_stream b = \<lparr>content = [], tell = 0\<rparr>"

definition write_bytes :: "bytes \<Rightarrow> BufferedByteStream \<Rightarrow> BufferedByteStream" where
  "write_bytes d b =
     \<lparr>content = take (tell b) (content b) @ replicate (tell b - length (content b)) 0
                 @ d @ drop (tell b + length d) (content b),
      tell = tell b + length d\<rparr>"

definition read_bytes :: "nat \<Rightarrow> BufferedByteStream \<Rightarrow> (error + bytes) \<times> BufferedByteStream" where
  "read_bytes k b =
     (if tell b + k > length (content b) then (Inl InsufficientData, b)
      else (Inr (take k (drop (tell b) (content b))), b\<lparr>tell := tell b + k\<rparr>))"

definition ulong_bytes :: "word32 \<Rightarrow> bytes" where
  "ulong_bytes w = [ucast (drop_bit 24 w), ucast (drop_bit 16 w), ucast (drop_bit 8 w), ucast w]"

definition bytes_ulong :: "bytes \<Rightarrow> word32" where
  "bytes_ulong bs = foldl (\<lambda>acc x. push_bit 8 acc OR ucast x) 0 bs"

definition write_uchar :: "byte \<Rightarrow> BufferedByteStream \<Rightarrow> BufferedByteStream" where
  "write_uchar v b = write_bytes [v] b"

definition write_ulong :: "word32 \<Rightarrow> BufferedByteStream \<Rightarrow> BufferedByteStream" where
  "write_ulong v b = write_bytes (ulong_bytes v) b"

definition read_uchar :: "BufferedByteStream \<Rightarrow> (error + byte) \<times> BufferedByteStream" where
  "read_uchar b =
     (case read_bytes 1 b of
        (Inl e, b') \<Rightarrow> (Inl e, b')
      | (Inr d, b') \<Rightarrow> (Inr (hd d), b'))"

definition read_ulong :: "BufferedByteStream \<Rightarrow> (error + word32) \<times> BufferedByteStream" where
  "read_ulong b =
     (case read_bytes 4 b of
        (Inl e, b') \<Rightarrow> (Inl e, b')
      | (Inr d, b') \<Rightarrow> (Inr (bytes_ulong d), b'))"

text \<open>
  Modelled from the spec: \<^verbatim>\<open>util.generateBytes\<close> is not part of the sources either. It
  returns the asked number of random bytes. The random source is the stream \<open>g\<close>
  of the bytes still to come: a draw of \<open>k\<close> bytes takes the first \<open>k\<close> of them and
  leaves the rest for the next draw.
\<close>

type_synonym random_source = "nat \<Rightarrow> byte"

definition generateBytes :: "nat \<Rightarrow> random_source \<Rightarrow> bytes \<times> random_source" where
  "generateBytes k g = (map g [0..<k], \<lambda>i. g (i + k))"

subsection \<open>Packet\<close>

text \<open>
  \<^verbatim>\<open>first\<close> and \<^verbatim>\<open>second\<close> are 32-bit unsigned integers and \<^verbatim>\<open>payload\<close> a byte string,
  as the class documents them; each starts as \<^verbatim>\<open>None\<close>. The time stamp is what
  \<^verbatim>\<open>int(time.time())\<close> gave, again as an unsigned 32-bit value; the reading of the
  clock is the argument \<open>now\<close> of every function that builds a packet.
\<close>

record Packet =
  first :: "word32 option"
  second :: "word32 option"
  payload :: "bytes option"
  timestamp :: "word32 option"

text \<open>Python's truth value of an optional integer: \<^verbatim>\<open>None\<close> and \<^verbatim>\<open>0\<close> are false.\<close>

definition truthy :: "'a::zero option \<Rightarrow> bool" where
  "truthy x = (case x of None \<Rightarrow> False | Some v \<Rightarrow> v \<noteq> 0)"

text \<open>\<^verbatim>\<open>x or 0\<close>\<close>

definition or_zero :: "'a::zero option \<Rightarrow> 'a" where
  "or_zero x = (case x of None \<Rightarrow> 0 | Some v \<Rightarrow> (if v \<noteq> 0 then v else 0))"

text \<open>
  \<^verbatim>\<open>Packet(first=f, second=s, payload=p, timestamp=t)\<close>: a keyword that is left out is
  \<open>None\<close> here, which is also the class attribute's value.
\<close>

definition Packet_init ::
  "word32 \<Rightarrow> word32 option \<Rightarrow> word32 option \<Rightarrow> bytes option \<Rightarrow> word32 option \<Rightarrow> Packet" where
  "Packet_init now f s p t =
     \<lparr>first = f, second = s, payload = p,
      timestamp = (if \<not> truthy t then Some now else t)\<rparr>"

definition Packet_encode :: "Packet \<Rightarrow> BufferedByteStream \<Rightarrow> error option \<times> BufferedByteStream" where
  "Packet_encode p b =
     (let b1 = write_ulong (or_zero (first p)) b;
          b2 = write_ulong (or_zero (second p)) b1
      in case payload p of
           None \<Rightarrow> (Some TypeError, b2)
         | Some d \<Rightarrow> (None, write_bytes d b2))"

definition Packet_decode ::
  "Packet \<Rightarrow> BufferedByteStream \<Rightarrow> error option \<times> Packet \<times> BufferedByteStream" where
  "Packet_decode p b =
     (case read_ulong b of
        (Inl e, b1) \<Rightarrow> (Some e, p, b1)
      | (Inr f, b1) \<Rightarrow>
          (case read_ulong b1 of
             (Inl e, b2) \<Rightarrow> (Some e, p\<lparr>first := Some f\<rparr>, b2)
           | (Inr s, b2) \<Rightarrow>
               (case read_bytes (HANDSHAKE_LENGTH - 8) b2 of
                  (Inl e, b3) \<Rightarrow> (Some e, p\<lparr>first := Some f, second := Some s\<rparr>, b3)
                | (Inr d, b3) \<Rightarrow>
                    (None, p\<lparr>first := Some f, second := Some s, payload := Some d\<rparr>, b3))))"

text \<open>The bytes that \<^verbatim>\<open>encode\<close> leaves in a fresh stream.\<close>

definition encoded :: "Packet \<Rightarrow> bytes" where
  "encoded p = getvalue (snd (Packet_encode p (BufferedByteStream_init [])))"

text \<open>\<^verbatim>\<open>generate_payload(packet)\<close>\<close>

definition generate_payload :: "Packet \<Rightarrow> random_source \<Rightarrow> Packet \<times> random_source" where
  "generate_payload p g =
     (case generateBytes (HANDSHAKE_LENGTH - 8) g of (d, g') \<Rightarrow> (p\<lparr>payload := Some d\<rparr>, g'))"

subsection \<open>The negotiators\<close>

text \<open>
  The observer is known by the calls it received, oldest first. It is taken to accept
  every call: an observer that raises from its own methods is outside the module.
  \<^verbatim>\<open>handshakeFailure\<close> is called with \<^verbatim>\<open>sys.exc_info()\<close>, of which the class of the
  exception is kept.
\<close>

datatype event = Write bytes | HandshakeSuccess | HandshakeFailure error

datatype negotiator_class = BaseNegotiator | ClientNegotiator | ServerNegotiator

text \<open>
  A negotiator object. \<open>cls\<close> is its class and decides which override of
  \<^verbatim>\<open>start\<close>, \<^verbatim>\<open>versionReceived\<close>, \<^verbatim>\<open>synReceived\<close> and \<^verbatim>\<open>ackReceived\<close> runs.
  \<open>random\<close> is the random source that \<^verbatim>\<open>util.generateBytes\<close> reads. Before \<^verbatim>\<open>start\<close>
  the attributes other than \<^verbatim>\<open>observer\<close>, \<^verbatim>\<open>started\<close> and \<^verbatim>\<open>protocolVersion\<close> do not
  exist yet; no method reads them then.
\<close>

record Negotiator =
  cls :: negotiator_class
  protocolVersion :: byte
  observer :: "event list"
  started :: bool
  buffer :: BufferedByteStream
  peer_version :: "byte option"
  my_syn :: "Packet option"
  my_ack :: "Packet option"
  peer_syn :: "Packet option"
  peer_ack :: "Packet option"
  random :: random_source

definition Negotiator_init :: "negotiator_class \<Rightarrow> random_source \<Rightarrow> Negotiator" where
  "Negotiator_init c g =
     \<lparr>cls = c, protocolVersion = RTMP_PROTOCOL_VERSION, observer = [], started = False,
      buffer = BufferedByteStream_init [], peer_version = None, my_syn = None,
      my_ack = None, peer_syn = None, peer_ack = None, random = g\<rparr>"

text \<open>
  A method returns the exception it raised (\<open>None\<close> when it returned normally) and
  the object as it is at that moment. \<open>and_then\<close> is the semicolon between two
  statements: the second runs only if the first raised nothing.
\<close>

type_synonym outcome = "error option \<times> Negotiator"

definition and_then :: "outcome \<Rightarrow> (Negotiator \<Rightarrow> outcome) \<Rightarrow> outcome" where
  "and_then r f = (case r of (Some e, n) \<Rightarrow> (Some e, n) | (None, n) \<Rightarrow> f n)"

definition BaseNegotiator_start ::
  "word32 \<Rightarrow> word32 option \<Rightarrow> word32 option \<Rightarrow> Negotiator \<Rightarrow> outcome" where
  "BaseNegotiator_start now uptime version n =
     (if started n then (Some HandshakeError, n)
      else (None, n\<lparr>started := True,
                     buffer := BufferedByteStream_init [],
                     peer_version := None,
                     my_syn := Some (Packet_init now uptime version None None),
                     my_ack := None,
                     peer_syn := None,
                     peer_ack := None\<rparr>))"

text \<open>\<^verbatim>\<open>getPeerPacket\<close>: \<open>Inr None\<close> is the bare \<^verbatim>\<open>return\<close> when more data is expected.\<close>

definition getPeerPacket :: "word32 \<Rightarrow> Negotiator \<Rightarrow> (error + Packet option) \<times> Negotiator" where
  "getPeerPacket now n =
     (if remaining (buffer n) < HANDSHAKE_LENGTH then (Inr None, n)
      else (case Packet_decode (Packet_init now None None None None) (buffer n) of
              (Some e, p, b) \<Rightarrow> (Inl e, n\<lparr>buffer := b\<rparr>)
            | (None, p, b) \<Rightarrow> (Inr (Some p), n\<lparr>buffer := b\<rparr>)))"

text \<open>\<^verbatim>\<open>_writePacket\<close>; \<^verbatim>\<open>packet.encode\<close> on \<^verbatim>\<open>None\<close> is an \<^verbatim>\<open>AttributeError\<close>.\<close>

definition writePacket :: "Packet option \<Rightarrow> Negotiator \<Rightarrow> outcome" where
  "writePacket packet n =
     (case packet of
        None \<Rightarrow> (Some AttributeError, n)
      | Some p \<Rightarrow>
          (case Packet_encode p (buffer n) of
             (Some e, b) \<Rightarrow> (Some e, n\<lparr>buffer := b\<rparr>)
           | (None, b) \<Rightarrow>
               (None, n\<lparr>buffer := truncate_stream b, observer := observer n @ [Write (getvalue b)]\<rparr>)))"

definition writeVersionAndSyn :: "Negotiator \<Rightarrow> outcome" where
  "writeVersionAndSyn n =
     (let n1 = n\<lparr>buffer := truncate_stream (buffer n)\<rparr>;
          n2 = n1\<lparr>buffer := write_uchar (protocolVersion n1) (buffer n1)\<rparr>
      in writePacket (my_syn n2) n2)"

text \<open>\<^verbatim>\<open>buildSynPayload(self.my_syn)\<close> and \<^verbatim>\<open>buildAckPayload(self.my_ack)\<close>: both call
  \<^verbatim>\<open>generate_payload\<close>, which sets an attribute of its argument.\<close>

definition buildSynPayload :: "Negotiator \<Rightarrow> outcome" where
  "buildSynPayload n =
     (case my_syn n of
        None \<Rightarrow> (Some AttributeError, n)
      | Some p \<Rightarrow>
          (case generate_payload p (random n) of
             (p', g') \<Rightarrow> (None, n\<lparr>my_syn := Some p', random := g'\<rparr>)))"

definition buildAckPayload :: "Negotiator \<Rightarrow> outcome" where
  "buildAckPayload n =
     (case my_ack n of
        None \<Rightarrow> (Some AttributeError, n)
      | Some p \<Rightarrow>
          (case generate_payload p (random n) of
             (p', g') \<Rightarrow> (None, n\<lparr>my_ack := Some p', random := g'\<rparr>)))"

definition writeAck :: "Negotiator \<Rightarrow> outcome" where
  "writeAck n =
     and_then (buildAckPayload n)
       (\<lambda>n1. let n2 = n1\<lparr>buffer := truncate_stream (buffer n1)\<rparr> in writePacket (my_ack n2) n2)"

text \<open>
  Python 2 orders \<^verbatim>\<open>None\<close> before every number: \<^verbatim>\<open>None > c\<close> is false and
  \<^verbatim>\<open>None < c\<close> is true.
\<close>

definition py_gt :: "byte option \<Rightarrow> byte \<Rightarrow> bool" where
  "py_gt x c = (case x of None \<Rightarrow> False | Some v \<Rightarrow> v > c)"

definition py_lt :: "byte option \<Rightarrow> byte \<Rightarrow> bool" where
  "py_lt x c = (case x of None \<Rightarrow> True | Some v \<Rightarrow> v < c)"

definition BaseNegotiator_versionReceived :: "Negotiator \<Rightarrow> outcome" where
  "BaseNegotiator_versionReceived n =
     (if peer_version n = Some (protocolVersion n) then (None, n)
      else if py_gt (peer_version n) MAX_PROTOCOL_VERSION then (Some ProtocolVersionError, n)
      else if py_gt (peer_version n) (protocolVersion n) then (Some ProtocolTooHigh, n)
      else (None, n))"

definition ClientNegotiator_start ::
  "word32 \<Rightarrow> word32 option \<Rightarrow> word32 option \<Rightarrow> Negotiator \<Rightarrow> outcome" where
  "ClientNegotiator_start now uptime version n =
     and_then (BaseNegotiator_start now uptime version n)
       (\<lambda>n1. and_then (buildSynPayload n1) writeVersionAndSyn)"

definition ClientNegotiator_versionReceived :: "Negotiator \<Rightarrow> outcome" where
  "ClientNegotiator_versionReceived n =
     and_then (BaseNegotiator_versionReceived n)
       (\<lambda>n1. if py_lt (peer_version n1) (protocolVersion n1) then (Some ProtocolDegraded, n1)
             else (None, n1))"

definition ClientNegotiator_ackReceived :: "word32 \<Rightarrow> Negotiator \<Rightarrow> outcome" where
  "ClientNegotiator_ackReceived now n =
     (if remaining (buffer n) \<noteq> 0 then (Some HandshakeError, n)
      else case peer_ack n of
        None \<Rightarrow> (Some AttributeError, n)
      | Some pa \<Rightarrow>
      (case my_syn n of
        None \<Rightarrow> (Some AttributeError, n)
      | Some ms \<Rightarrow>
      if first pa \<noteq> first ms then (Some VerificationError, n)
      else if payload pa \<noteq> payload ms then (Some VerificationError, n)
      else (case peer_syn n of
        None \<Rightarrow> (Some AttributeError, n)
      | Some ps \<Rightarrow>
          writeAck (n\<lparr>my_ack := Some (Packet_init now (first ps) (timestamp ms) None None)\<rparr>))))"

definition ServerNegotiator_versionReceived :: "Negotiator \<Rightarrow> outcome" where
  "ServerNegotiator_versionReceived n =
     and_then (BaseNegotiator_versionReceived n)
       (\<lambda>n1. and_then (buildSynPayload n1) writeVersionAndSyn)"

definition ServerNegotiator_synReceived :: "word32 \<Rightarrow> Negotiator \<Rightarrow> outcome" where
  "ServerNegotiator_synReceived now n =
     (case peer_syn n of
        None \<Rightarrow> (Some AttributeError, n)
      | Some ps \<Rightarrow>
      (case my_syn n of
        None \<Rightarrow> (Some AttributeError, n)
      | Some ms \<Rightarrow>
          writeAck (n\<lparr>my_ack := Some (Packet_init now (timestamp ps) (timestamp ms) None None)\<rparr>)))"

definition ServerNegotiator_ackReceived :: "Negotiator \<Rightarrow> outcome" where
  "ServerNegotiator_ackReceived n =
     (case my_syn n of
        None \<Rightarrow> (Some AttributeError, n)
      | Some ms \<Rightarrow>
      (case peer_ack n of
        None \<Rightarrow> (Some AttributeError, n)
      | Some pa \<Rightarrow>
      if first ms \<noteq> first pa then (Some VerificationError, n)
      else if payload ms \<noteq> payload pa then (Some VerificationError, n)
      else (None, n)))"

text \<open>The method that runs for an object of each class.\<close>

definition start :: "word32 \<Rightarrow> word32 option \<Rightarrow> word32 option \<Rightarrow> Negotiator \<Rightarrow> outcome" where
  "start now uptime version n =
     (case cls n of
        ClientNegotiator \<Rightarrow> ClientNegotiator_start now uptime version n
      | _ \<Rightarrow> BaseNegotiator_start now uptime version n)"

definition versionReceived :: "Negotiator \<Rightarrow> outcome" where
  "versionReceived n =
     (case cls n of
        BaseNegotiator \<Rightarrow> BaseNegotiator_versionReceived n
      | ClientNegotiator \<Rightarrow> ClientNegotiator_versionReceived n
      | ServerNegotiator \<Rightarrow> ServerNegotiator_versionReceived n)"

definition synReceived :: "word32 \<Rightarrow> Negotiator \<Rightarrow> outcome" where
  "synReceived now n =
     (case cls n of
        ServerNegotiator \<Rightarrow> ServerNegotiator_synReceived now n
      | _ \<Rightarrow> (None, n))"

definition ackReceived :: "word32 \<Rightarrow> Negotiator \<Rightarrow> outcome" where
  "ackReceived now n =
     (case cls n of
        BaseNegotiator \<Rightarrow> (None, n)
      | ClientNegotiator \<Rightarrow> ClientNegotiator_ackReceived now n
      | ServerNegotiator \<Rightarrow> ServerNegotiator_ackReceived n)"

text \<open>
  \<^verbatim>\<open>_process\<close> has three blocks, one for each stage, and each can raise, return from
  the method, or fall through to the next block. \<^verbatim>\<open>not self.peer_version\<close> holds for
  \<^verbatim>\<open>None\<close> and for a version byte \<^verbatim>\<open>0\<close>; a packet object is always true.
\<close>

datatype flow = Raised error | Returned | Next

definition after_hook :: "outcome \<Rightarrow> flow \<times> Negotiator" where
  "after_hook r = (case r of (Some e, n) \<Rightarrow> (Raised e, n) | (None, n) \<Rightarrow> (Next, n))"

definition process_version :: "Negotiator \<Rightarrow> flow \<times> Negotiator" where
  "process_version n =
     (if \<not> truthy (peer_version n) then
        (if remaining (buffer n) < 1 then (Returned, n)
         else case read_uchar (buffer n) of
                (Inl e, b) \<Rightarrow> (Raised e, n\<lparr>buffer := b\<rparr>)
              | (Inr v, b) \<Rightarrow> after_hook (versionReceived (n\<lparr>buffer := b, peer_version := Some v\<rparr>)))
      else (Next, n))"

definition process_syn :: "word32 \<Rightarrow> Negotiator \<Rightarrow> flow \<times> Negotiator" where
  "process_syn now n =
     (if peer_syn n = None then
        (case getPeerPacket now n of
           (Inl e, n1) \<Rightarrow> (Raised e, n1)
         | (Inr None, n1) \<Rightarrow> (Returned, n1\<lparr>peer_syn := None\<rparr>)
         | (Inr (Some p), n1) \<Rightarrow> after_hook (synReceived now (n1\<lparr>peer_syn := Some p\<rparr>)))
      else (Next, n))"

definition process_ack :: "word32 \<Rightarrow> Negotiator \<Rightarrow> flow \<times> Negotiator" where
  "process_ack now n =
     (if peer_ack n = None then
        (case getPeerPacket now n of
           (Inl e, n1) \<Rightarrow> (Raised e, n1)
         | (Inr None, n1) \<Rightarrow> (Returned, n1\<lparr>peer_ack := None\<rparr>)
         | (Inr (Some p), n1) \<Rightarrow> after_hook (ackReceived now (n1\<lparr>peer_ack := Some p\<rparr>)))
      else (Next, n))"

definition process :: "word32 \<Rightarrow> Negotiator \<Rightarrow> outcome" where
  "process now n =
     (case process_version n of
        (Raised e, n1) \<Rightarrow> (Some e, n1)
      | (Returned, n1) \<Rightarrow> (None, n1)
      | (Next, n1) \<Rightarrow>
     (case process_syn now n1 of
        (Raised e, n2) \<Rightarrow> (Some e, n2)
      | (Returned, n2) \<Rightarrow> (None, n2)
      | (Next, n2) \<Rightarrow>
     (case process_ack now n2 of
        (Raised e, n3) \<Rightarrow> (Some e, n3)
      | (Returned, n3) \<Rightarrow> (None, n3)
      | (Next, n3) \<Rightarrow> (None, n3\<lparr>observer := observer n3 @ [HandshakeSuccess]\<rparr>))))"

text \<open>
  \<^verbatim>\<open>dataReceived\<close>: \<open>dataReceived_try\<close> is the body of the \<^verbatim>\<open>try\<close>, and the bare
  \<^verbatim>\<open>except\<close> turns whatever it raised into a call of the observer. The method itself
  returns normally in both cases, so its result is the object alone.
\<close>

definition dataReceived_try :: "word32 \<Rightarrow> bytes \<Rightarrow> Negotiator \<Rightarrow> outcome" where
  "dataReceived_try now d n =
     (if \<not> started n then (Some HandshakeError, n)
      else process now (n\<lparr>buffer := append_bytes d (buffer n)\<rparr>))"

definition dataReceived :: "word32 \<Rightarrow> bytes \<Rightarrow> Negotiator \<Rightarrow> Negotiator" where
  "dataReceived now d n =
     (case dataReceived_try now d n of
        (None, n') \<Rightarrow> n'
      | (Some e, n') \<Rightarrow> n'\<lparr>observer := observer n' @ [HandshakeFailure e]\<rparr>)"

subsection \<open>The protocol session\<close>

text \<open>
  Modelled from the spec: the protocol session (\<^verbatim>\<open>rtmp.BaseProtocol\<close> and its server
  and client subclasses) is not part of the sources; only its tests are. The spec
  gives it two states, handshake and streaming. On \<^verbatim>\<open>handshakeSuccess\<close> it builds the
  chunk decoder and encoder, discards the negotiator, moves to streaming, and replays
  into the new decoder the bytes that the negotiator held beyond the handshake
  boundary; in the streaming state received bytes go to the decoder.

  The decoder is known by the chunks of input it was given, oldest first; \<open>None\<close>
  is a decoder that has not been built. The bytes a negotiator holds beyond the
  handshake boundary are the ones of its buffer that it has not read.
\<close>

datatype session_state = HANDSHAKE | STREAM

record Session =
  state :: session_state
  handshaker :: "Negotiator option"
  decoder :: "bytes list option"
  encoder_built :: bool

definition residual :: "Negotiator \<Rightarrow> bytes" where
  "residual n = drop (tell (buffer n)) (content (buffer n))"

definition decodeStream :: "bytes \<Rightarrow> Session \<Rightarrow> error option \<times> Session" where
  "decodeStream d s =
     (case decoder s of
        None \<Rightarrow> (Some AttributeError, s)
      | Some chunks \<Rightarrow> (None, s\<lparr>decoder := Some (chunks @ [d])\<rparr>))"

definition decodeHandshake :: "word32 \<Rightarrow> bytes \<Rightarrow> Session \<Rightarrow> error option \<times> Session" where
  "decodeHandshake now d s =
     (case handshaker s of
        None \<Rightarrow> (Some AttributeError, s)
      | Some n \<Rightarrow> (None, s\<lparr>handshaker := Some (dataReceived now d n)\<rparr>))"

definition Session_dataReceived :: "word32 \<Rightarrow> bytes \<Rightarrow> Session \<Rightarrow> error option \<times> Session" where
  "Session_dataReceived now d s =
     (case state s of
        HANDSHAKE \<Rightarrow> decodeHandshake now d s
      | STREAM \<Rightarrow> decodeStream d s)"

definition handshakeSuccess :: "word32 \<Rightarrow> Session \<Rightarrow> error option \<times> Session" where
  "handshakeSuccess now s =
     (case handshaker s of
        None \<Rightarrow> (Some AttributeError, s)
      | Some n \<Rightarrow>
          (let s1 = s\<lparr>decoder := Some [], encoder_built := True, handshaker := None,
                       state := STREAM\<rparr>
           in if residual n \<noteq> [] then Session_dataReceived now (residual n) s1
              else (None, s1)))"

subsection \<open>Stream registry of the chunk codec\<close>

text \<open>
  Modelled from the spec: the chunk codec (\<^verbatim>\<open>codec.BaseCodec\<close>) is not part of the
  sources; only the tests of its stream registry are. \<^verbatim>\<open>registerStream(id, handle)\<close>
  fails with a range error (\<^verbatim>\<open>ValueError\<close> in the tests) if the id is outside
  0..65535, with a type error (\<^verbatim>\<open>TypeError\<close>) if the handle does not have the stream
  capability set, and with an already-registered error (\<^verbatim>\<open>IndexError\<close>) if the id is
  occupied, in this order; otherwise it stores the handle under the id.
  \<^verbatim>\<open>removeStream(id)\<close> fails with a not-found error (\<^verbatim>\<open>IndexError\<close>) if the id is not
  registered, otherwise it detaches and returns the handle.

  The capability set of the spec is: able to accept reassembled messages, and to
  pause and resume. A handle is known by an identity and by what it is able to do.
\<close>

record Handle =
  ident :: nat
  accepts_messages :: bool
  pausable :: bool

definition provides_IStream :: "Handle \<Rightarrow> bool" where
  "provides_IStream h = (accepts_messages h \<and> pausable h)"

type_synonym streams = "int \<rightharpoonup> Handle"

definition MAX_STREAMS :: int where
  "MAX_STREAMS = 65535"

definition registerStream :: "int \<Rightarrow> Handle \<Rightarrow> streams \<Rightarrow> error option \<times> streams" where
  "registerStream streamId h m =
     (if streamId < 0 \<or> streamId > MAX_STREAMS then (Some ValueError, m)
      else if \<not> provides_IStream h then (Some TypeError, m)
      else if m streamId \<noteq> None then (Some IndexError, m)
      else (None, m(streamId \<mapsto> h)))"

definition removeStream :: "int \<Rightarrow> streams \<Rightarrow> (error + Handle) \<times> streams" where
  "removeStream streamId m =
     (case m streamId of
        None \<Rightarrow> (Inl IndexError, m)
      | Some h \<Rightarrow> (Inr h, m(streamId := None)))"

subsection \<open>Call correlation\<close>

text \<open>
  Modelled from the spec: the module \<^verbatim>\<open>rtmpy.rpc\<close> is not part of the sources; only its
  tests are. The call handler keeps the context of every pending call under its id;
  ids are handed out by a counter that starts at 1. A result handle is either still
  pending, resolved with the arguments of a success response, or rejected with the
  arguments of an error response. The handles live outside the table of pending
  calls (the caller holds them), so they are kept in a table of their own, under the
  number that the context of the call carries. \<^verbatim>\<open>handleResponse\<close> finishes the call of
  the id; if none is active the response is dropped; the success kind (\<^verbatim>\<open>_result\<close>)
  resolves the handle, the error kind (\<^verbatim>\<open>_error\<close>) rejects it, and any other kind does
  neither.
\<close>

datatype 'v handle_state = Pending | Resolved "'v list" | Rejected "'v list"

record 'v CallContext =
  resultHandle :: nat
  methodName :: string
  originalArgs :: "'v list"
  command :: "'v option"

record 'v CallHandler =
  lastCallId :: nat
  activeCalls :: "nat \<rightharpoonup> 'v CallContext"
  handles :: "nat \<rightharpoonup> 'v handle_state"
  sent :: "(nat \<times> string \<times> 'v option list) list"

definition CallHandler_init :: "'v CallHandler" where
  "CallHandler_init = \<lparr>lastCallId = 0, activeCalls = Map.empty, handles = Map.empty, sent = []\<rparr>"

definition isCallActive :: "nat \<Rightarrow> 'v CallHandler \<Rightarrow> bool" where
  "isCallActive callId h = (activeCalls h callId \<noteq> None)"

definition initiateCall :: "'v CallContext \<Rightarrow> 'v CallHandler \<Rightarrow> nat \<times> 'v CallHandler" where
  "initiateCall ctx h =
     (let callId = lastCallId h + 1
      in (callId, h\<lparr>lastCallId := callId, activeCalls := (activeCalls h)(callId \<mapsto> ctx)\<rparr>))"

definition finishCall :: "nat \<Rightarrow> 'v CallHandler \<Rightarrow> 'v CallContext option \<times> 'v CallHandler" where
  "finishCall callId h =
     (case activeCalls h callId of
        None \<Rightarrow> (None, h)
      | Some ctx \<Rightarrow> (Some ctx, h\<lparr>activeCalls := (activeCalls h)(callId := None)\<rparr>))"

definition discardCall :: "nat \<Rightarrow> 'v CallHandler \<Rightarrow> 'v CallContext option \<times> 'v CallHandler" where
  "discardCall callId h = finishCall callId h"

text \<open>\<^verbatim>\<open>callWithResult(name, *args, command=c)\<close> with a transport that accepts the message:
  a fresh pending handle, a call context under a new id, and one invoke message with
  the arguments \<^verbatim>\<open>[command] + args\<close>. It returns the number of the handle.\<close>

definition callWithResult ::
  "string \<Rightarrow> 'v list \<Rightarrow> 'v option \<Rightarrow> 'v CallHandler \<Rightarrow> nat \<times> 'v CallHandler" where
  "callWithResult name args cmd h =
     (let d = lastCallId h + 1;
          h1 = h\<lparr>handles := (handles h)(d \<mapsto> Pending)\<rparr>;
          ctx = \<lparr>resultHandle = d, methodName = name, originalArgs = args, command = cmd\<rparr>
      in case initiateCall ctx h1 of
           (callId, h2) \<Rightarrow> (d, h2\<lparr>sent := sent h2 @ [(callId, name, cmd # map Some args)]\<rparr>))"

definition RESULT :: string where
  "RESULT = ''_result''"

definition ERROR :: string where
  "ERROR = ''_error''"

definition handleResponse ::
  "string \<Rightarrow> nat \<Rightarrow> 'v list \<Rightarrow> 'v option \<Rightarrow> 'v CallHandler \<Rightarrow> 'v CallHandler" where
  "handleResponse kind callId args cmd h =
     (case finishCall callId h of
        (None, h1) \<Rightarrow> h1
      | (Some ctx, h1) \<Rightarrow>
          (if kind = RESULT then h1\<lparr>handles := (handles h1)(resultHandle ctx \<mapsto> Resolved args)\<rparr>
           else if kind = ERROR then h1\<lparr>handles := (handles h1)(resultHandle ctx \<mapsto> Rejected args)\<rparr>
           else h1))"

subsection \<open>Reading the observer, and an example run\<close>

text \<open>The exceptions that the observer was told of, in the order of the calls.\<close>

fun failures :: "event list \<Rightarrow> error list" where
  "failures [] = []"
| "failures (HandshakeFailure e # es) = e # failures es"
| "failures (Write d # es) = failures es"
| "failures (HandshakeSuccess # es) = failures es"

text \<open>
  The packet that \<^verbatim>\<open>getPeerPacket\<close> builds at time \<open>now\<close> from the 1536 bytes that
  \<^verbatim>\<open>encode\<close> wrote for \<open>p\<close>.
\<close>

definition decoded :: "word32 \<Rightarrow> Packet \<Rightarrow> Packet" where
  "decoded now p = \<lparr>first = Some (or_zero (first p)), second = Some (or_zero (second p)),
                     payload = payload p, timestamp = Some now\<rparr>"

text \<open>
  A client started at time 1000 with uptime 7 and version 0, on a random source that
  gives the byte 1 only. Its peer answers with the version byte 3, a syn, and an ack
  that echoes the uptime and the payload of the client's syn. \<open>example_acked rest\<close>
  is the client at the moment \<^verbatim>\<open>ackReceived\<close> runs, when the answer came at time 1001
  in one piece, followed by the bytes \<open>rest\<close>.
\<close>

definition example_client :: Negotiator where
  "example_client =
     snd (ClientNegotiator_start 1000 (Some 7) (Some 0) (Negotiator_init ClientNegotiator (\<lambda>i. 1)))"

definition example_syn :: Packet where
  "example_syn = \<lparr>first = Some 55, second = Some 66, payload = Some (replicate 1528 9),
                   timestamp = Some 999\<rparr>"

definition example_ack :: Packet where
  "example_ack = \<lparr>first = Some 7, second = Some 66, payload = Some (replicate 1528 1),
                   timestamp = Some 999\<rparr>"

definition example_reply :: bytes where
  "example_reply = 3 # encoded example_syn @ encoded example_ack"

definition example_acked :: "bytes \<Rightarrow> Negotiator" where
  "example_acked rest =
     example_client\<lparr>buffer := \<lparr>content = example_reply @ rest, tell = 3073\<rparr>,
                    peer_version := Some 3,
                    peer_syn := Some (decoded 1001 example_syn),
                    peer_ack := Some (decoded 1001 example_ack)\<rparr>"

section \<open>Properties\<close>

subsection \<open>The byte stream and the packet codec\<close>

lemma length_ulong_bytes: "length (ulong_bytes w) = 4"
  by (simp add: ulong_bytes_def)

lemma bytes_ulong_ulong_bytes: "bytes_ulong (ulong_bytes w) = w"
proof (rule bit_word_eqI)
  fix k :: nat
  assume "k < LENGTH(32)"
  then have "k < 8 \<or> (8 \<le> k \<and> k < 16) \<or> (16 \<le> k \<and> k < 24) \<or> (24 \<le> k \<and> k < 32)"
    by auto
  then show "bit (bytes_ulong (ulong_bytes w)) k = bit w k"
    by (auto simp add: bytes_ulong_def ulong_bytes_def bit_simps)
qed

lemma write_bytes_at_end:
  "tell b = length (content b) \<Longrightarrow>
   write_bytes d b = \<lparr>content = content b @ d, tell = length (content b) + length d\<rparr>"
  by (simp add: write_bytes_def)

lemma Packet_encode_at_end:
  assumes "tell b = length (content b)" and "payload p = Some d"
  shows "Packet_encode p b =
           (None, \<lparr>content = content b @ ulong_bytes (or_zero (first p))
                               @ ulong_bytes (or_zero (second p)) @ d,
                   tell = length (content b) + 8 + length d\<rparr>)"
  using assms
  by (simp add: Packet_encode_def write_ulong_def write_bytes_at_end length_ulong_bytes Let_def)

lemma encoded_eq:
  "payload p = Some d \<Longrightarrow>
   encoded p = ulong_bytes (or_zero (first p)) @ ulong_bytes (or_zero (second p)) @ d"
  by (simp add: encoded_def getvalue_def BufferedByteStream_init_def Packet_encode_at_end)

lemma length_encoded:
  "payload p = Some d \<Longrightarrow> length (encoded p) = 8 + length d"
  by (simp add: encoded_eq length_ulong_bytes)

lemma read_bytes_ok:
  "tell b + k \<le> length (content b) \<Longrightarrow>
   read_bytes k b = (Inr (take k (drop (tell b) (content b))), b\<lparr>tell := tell b + k\<rparr>)"
  by (simp add: read_bytes_def)

lemma read_ulong_ok:
  "tell b + 4 \<le> length (content b) \<Longrightarrow>
   read_ulong b = (Inr (bytes_ulong (take 4 (drop (tell b) (content b)))), b\<lparr>tell := tell b + 4\<rparr>)"
  by (simp add: read_ulong_def read_bytes_ok)

lemma Packet_decode_ok:
  assumes "tell b + HANDSHAKE_LENGTH \<le> length (content b)"
  shows "Packet_decode p b =
           (None,
            p\<lparr>first := Some (bytes_ulong (take 4 (drop (tell b) (content b)))),
              second := Some (bytes_ulong (take 4 (drop (tell b + 4) (content b)))),
              payload := Some (take (HANDSHAKE_LENGTH - 8) (drop (tell b + 8) (content b)))\<rparr>,
            b\<lparr>tell := tell b + HANDSHAKE_LENGTH\<rparr>)"
  using assms
  by (simp add: Packet_decode_def read_ulong_ok read_bytes_ok HANDSHAKE_LENGTH_def add.commute)

lemma decode_encoded:
  assumes "payload p = Some d" and "length d = HANDSHAKE_LENGTH - 8"
  shows "Packet_decode q (BufferedByteStream_init (encoded p)) =
           (None,
            q\<lparr>first := Some (or_zero (first p)), second := Some (or_zero (second p)),
              payload := Some d\<rparr>,
            \<lparr>content = encoded p, tell = HANDSHAKE_LENGTH\<rparr>)"
proof -
  let ?b = "BufferedByteStream_init (encoded p)"
  have len: "length (encoded p) = HANDSHAKE_LENGTH"
    using assms by (simp add: encoded_eq length_ulong_bytes HANDSHAKE_LENGTH_def)
  have "tell ?b + HANDSHAKE_LENGTH \<le> length (content ?b)"
    using len by (simp add: BufferedByteStream_init_def)
  from Packet_decode_ok [OF this, of q] show ?thesis
    using assms
    by (simp add: BufferedByteStream_init_def encoded_eq length_ulong_bytes
        bytes_ulong_ulong_bytes HANDSHAKE_LENGTH_def)
qed


lemma generateBytes_const: "fst (generateBytes k (\<lambda>i. c)) = replicate k c"
  by (simp add: generateBytes_def map_replicate_const)

subsection \<open>Steps of the negotiators\<close>

lemma and_then_None [simp]: "and_then (None, n) f = f n"
  by (simp add: and_then_def)

lemma and_then_Some [simp]: "and_then (Some e, n) f = (Some e, n)"
  by (simp add: and_then_def)

lemma writePacket_at_end:
  assumes "tell (buffer n) = length (content (buffer n))" and "payload p = Some d"
  shows "writePacket (Some p) n =
           (None, n\<lparr>buffer := \<lparr>content = [], tell = 0\<rparr>,
                    observer := observer n @ [Write (content (buffer n) @ encoded p)]\<rparr>)"
  using assms
  by (simp add: writePacket_def Packet_encode_at_end truncate_stream_def getvalue_def encoded_eq)


lemma ClientNegotiator_start_eq:
  assumes "\<not> started n"
  shows "ClientNegotiator_start now uptime version n =
           (None,
            n\<lparr>started := True, peer_version := None, my_ack := None, peer_syn := None,
              peer_ack := None,
              my_syn := Some \<lparr>first = uptime, second = version,
                              payload = Some (fst (generateBytes 1528 (random n))),
                              timestamp = Some now\<rparr>,
              random := snd (generateBytes 1528 (random n)),
              buffer := \<lparr>content = [], tell = 0\<rparr>,
              observer := observer n @
                [Write (protocolVersion n #
                        encoded \<lparr>first = uptime, second = version,
                                 payload = Some (fst (generateBytes 1528 (random n))),
                                 timestamp = Some now\<rparr>)]\<rparr>)"
proof -
  let ?d = "fst (generateBytes 1528 (random n))"
  let ?p = "\<lparr>first = uptime, second = version, payload = Some ?d, timestamp = Some now\<rparr>"
  let ?n1 = "n\<lparr>started := True, buffer := BufferedByteStream_init [], peer_version := None,
               my_syn := Some (Packet_init now uptime version None None), my_ack := None,
               peer_syn := None, peer_ack := None\<rparr>"
  let ?n2 = "?n1\<lparr>my_syn := Some ?p, random := snd (generateBytes 1528 (random n))\<rparr>"
  let ?n3 = "?n2\<lparr>buffer := \<lparr>content = [protocolVersion n], tell = 1\<rparr>\<rparr>"
  have s1: "BaseNegotiator_start now uptime version n = (None, ?n1)"
    using assms by (simp add: BaseNegotiator_start_def)
  have s2: "buildSynPayload ?n1 = (None, ?n2)"
    by (simp add: buildSynPayload_def generate_payload_def Packet_init_def truthy_def
        HANDSHAKE_LENGTH_def split: prod.split)
  have s3: "writeVersionAndSyn ?n2 = writePacket (Some ?p) ?n3"
    by (simp add: writeVersionAndSyn_def truncate_stream_def write_uchar_def write_bytes_def Let_def)
  have s4: "writePacket (Some ?p) ?n3 =
              (None, ?n3\<lparr>buffer := \<lparr>content = [], tell = 0\<rparr>,
                         observer := observer ?n3 @ [Write (content (buffer ?n3) @ encoded ?p)]\<rparr>)"
    by (rule writePacket_at_end) simp_all
  show ?thesis
    unfolding ClientNegotiator_start_def s1 and_then_None s2 s3 s4 by simp
qed

lemma ClientNegotiator_ackReceived_trailing:
  "remaining (buffer n) \<noteq> 0 \<Longrightarrow> ClientNegotiator_ackReceived now n = (Some HandshakeError, n)"
  by (simp add: ClientNegotiator_ackReceived_def)

text \<open>Decoding a packet that sits in the buffer after \<open>pre\<close>, which has been read.\<close>

lemma getPeerPacket_encoded:
  assumes "buffer n = \<lparr>content = pre @ encoded p @ rest, tell = length pre\<rparr>"
    and "payload p = Some d" and "length d = 1528"
  shows "getPeerPacket now n =
           (Inr (Some \<lparr>first = Some (or_zero (first p)), second = Some (or_zero (second p)),
                       payload = Some d, timestamp = Some now\<rparr>),
            n\<lparr>buffer := \<lparr>content = pre @ encoded p @ rest, tell = length pre + 1536\<rparr>\<rparr>)"
proof -
  have len: "length (encoded p) = 1536"
    using assms by (simp add: length_encoded)
  have rem: "\<not> remaining (buffer n) < HANDSHAKE_LENGTH"
    using assms len by (simp add: remaining_def HANDSHAKE_LENGTH_def)
  have ok: "tell (buffer n) + HANDSHAKE_LENGTH \<le> length (content (buffer n))"
    using assms len by (simp add: HANDSHAKE_LENGTH_def)
  have e: "encoded p = ulong_bytes (or_zero (first p)) @ ulong_bytes (or_zero (second p)) @ d"
    using assms by (simp add: encoded_eq)
  have f: "take 4 (drop (tell (buffer n)) (content (buffer n))) = ulong_bytes (or_zero (first p))"
    using assms by (simp add: e length_ulong_bytes)
  have s: "take 4 (drop (tell (buffer n) + 4) (content (buffer n))) = ulong_bytes (or_zero (second p))"
    using assms by (simp add: e length_ulong_bytes)
  have d: "take (HANDSHAKE_LENGTH - 8) (drop (tell (buffer n) + 8) (content (buffer n))) = d"
    using assms by (simp add: e length_ulong_bytes HANDSHAKE_LENGTH_def)
  show ?thesis
    unfolding getPeerPacket_def Packet_decode_ok [OF ok] f s d bytes_ulong_ulong_bytes
    using rem assms(1)
    by (simp add: Packet_init_def truthy_def HANDSHAKE_LENGTH_def)
qed

text \<open>
  A client that has received nothing yet and gets the version byte it speaks, a syn
  and an ack in one piece (with whatever follows them) reaches \<^verbatim>\<open>ackReceived\<close> with
  the two packets decoded and 3073 bytes read.
\<close>

lemma client_receives_reply:
  assumes "cls n = ClientNegotiator" and "started n"
    and "peer_version n = None" and "peer_syn n = None" and "peer_ack n = None"
    and "buffer n = \<lparr>content = [], tell = 0\<rparr>"
    and "payload p1 = Some d1" and "length d1 = 1528"
    and "payload p2 = Some d2" and "length d2 = 1528"
  shows "dataReceived_try now (protocolVersion n # encoded p1 @ encoded p2 @ rest) n =
           (case ClientNegotiator_ackReceived now
                   (n\<lparr>buffer := \<lparr>content = protocolVersion n # encoded p1 @ encoded p2 @ rest,
                                  tell = 3073\<rparr>,
                      peer_version := Some (protocolVersion n),
                      peer_syn := Some (decoded now p1),
                      peer_ack := Some (decoded now p2)\<rparr>) of
              (Some e, n') \<Rightarrow> (Some e, n')
            | (None, n') \<Rightarrow> (None, n'\<lparr>observer := observer n' @ [HandshakeSuccess]\<rparr>))"
proof -
  let ?v = "protocolVersion n"
  let ?data = "?v # encoded p1 @ encoded p2 @ rest"
  let ?n0 = "n\<lparr>buffer := append_bytes ?data (buffer n)\<rparr>"
  let ?n1 = "n\<lparr>buffer := \<lparr>content = ?data, tell = 1\<rparr>, peer_version := Some ?v\<rparr>"
  let ?n2 = "n\<lparr>buffer := \<lparr>content = ?data, tell = 1537\<rparr>, peer_version := Some ?v,
               peer_syn := Some (decoded now p1)\<rparr>"
  let ?n3 = "n\<lparr>buffer := \<lparr>content = ?data, tell = 3073\<rparr>, peer_version := Some ?v,
               peer_syn := Some (decoded now p1), peer_ack := Some (decoded now p2)\<rparr>"
  have v: "versionReceived ?n1 = (None, ?n1)"
    using assms(1)
    by (simp add: versionReceived_def ClientNegotiator_versionReceived_def
        BaseNegotiator_versionReceived_def py_lt_def)
  have pv: "process_version ?n0 = (Next, ?n1)"
    using assms(3,6) v
    by (simp add: process_version_def truthy_def remaining_def append_bytes_def read_uchar_def
        read_bytes_def after_hook_def)
  have g1: "getPeerPacket now ?n1 =
              (Inr (Some \<lparr>first = Some (or_zero (first p1)), second = Some (or_zero (second p1)),
                          payload = Some d1, timestamp = Some now\<rparr>),
               ?n1\<lparr>buffer := \<lparr>content = [?v] @ encoded p1 @ (encoded p2 @ rest),
                                 tell = length [?v] + 1536\<rparr>\<rparr>)"
    by (rule getPeerPacket_encoded) (use assms in simp_all)
  have ps: "process_syn now ?n1 = (Next, ?n2)"
    unfolding process_syn_def g1
    using assms(1,4,7)
    by (simp add: synReceived_def after_hook_def decoded_def)
  have g2: "getPeerPacket now ?n2 =
              (Inr (Some \<lparr>first = Some (or_zero (first p2)), second = Some (or_zero (second p2)),
                          payload = Some d2, timestamp = Some now\<rparr>),
               ?n2\<lparr>buffer := \<lparr>content = (?v # encoded p1) @ encoded p2 @ rest,
                                 tell = length (?v # encoded p1) + 1536\<rparr>\<rparr>)"
    by (rule getPeerPacket_encoded) (use assms in \<open>simp_all add: length_encoded\<close>)
  have pa1: "process_ack now ?n2 =
               after_hook (ackReceived now
                 (?n2\<lparr>buffer := \<lparr>content = (?v # encoded p1) @ encoded p2 @ rest,
                                   tell = length (?v # encoded p1) + 1536\<rparr>,
                      peer_ack := Some \<lparr>first = Some (or_zero (first p2)),
                                       second = Some (or_zero (second p2)),
                                       payload = Some d2, timestamp = Some now\<rparr>\<rparr>))"
    unfolding process_ack_def g2 using assms(5) by simp
  have pa2: "?n2\<lparr>buffer := \<lparr>content = (?v # encoded p1) @ encoded p2 @ rest,
                              tell = length (?v # encoded p1) + 1536\<rparr>,
                 peer_ack := Some \<lparr>first = Some (or_zero (first p2)),
                                  second = Some (or_zero (second p2)),
                                  payload = Some d2, timestamp = Some now\<rparr>\<rparr> = ?n3"
    using assms(7,8,9) by (simp add: decoded_def length_encoded)
  have pa: "process_ack now ?n2 = after_hook (ClientNegotiator_ackReceived now ?n3)"
    unfolding pa1 pa2 using assms(1) by (simp add: ackReceived_def)
  have pr: "process now ?n0 =
              (case after_hook (ClientNegotiator_ackReceived now ?n3) of
                 (Raised e, n') \<Rightarrow> (Some e, n')
               | (Returned, n') \<Rightarrow> (None, n')
               | (Next, n') \<Rightarrow> (None, n'\<lparr>observer := observer n' @ [HandshakeSuccess]\<rparr>))"
    by (simp only: process_def pv ps pa prod.case flow.case)
  have dr: "dataReceived_try now ?data n = process now ?n0"
    using assms(2) by (simp add: dataReceived_try_def)
  show ?thesis
    unfolding dr pr
    by (cases "ClientNegotiator_ackReceived now ?n3")
      (simp add: after_hook_def split: option.split)
qed

text \<open>
  A started client that waits for the version byte and has read all it was given:
  the byte \<open>v\<close> arrives alone. The observer hears of the version error, if there is
  one, and of nothing else.
\<close>

lemma client_receives_version:
  assumes "cls n = ClientNegotiator" and "started n" and "protocolVersion n = 3"
    and "\<not> truthy (peer_version n)" and "peer_syn n = None"
    and "tell (buffer n) = length (content (buffer n))"
  shows "observer (dataReceived now [v] n) =
           observer n @
           (if 31 < unat v then [HandshakeFailure ProtocolVersionError]
            else if 3 < unat v then [HandshakeFailure ProtocolTooHigh]
            else if unat v < 3 then [HandshakeFailure ProtocolDegraded]
            else [])"
proof -
  let ?n0 = "n\<lparr>buffer := append_bytes [v] (buffer n)\<rparr>"
  let ?n1 = "n\<lparr>buffer := \<lparr>content = content (buffer n) @ [v],
                            tell = Suc (length (content (buffer n)))\<rparr>,
               peer_version := Some v\<rparr>"
  have a: "(v > 31) = (31 < unat v)" "(v > 3) = (3 < unat v)" "(v < 3) = (unat v < 3)"
    by (simp_all add: word_less_nat_alt)
  have b: "(v = 3) = (unat v = 3)"
    by (simp add: word_unat_eq_iff)
  have r: "read_uchar (buffer ?n0) =
             (Inr v, \<lparr>content = content (buffer n) @ [v],
                      tell = Suc (length (content (buffer n)))\<rparr>)"
    using assms(6) by (simp add: read_uchar_def read_bytes_def append_bytes_def)
  have pv: "process_version ?n0 = after_hook (versionReceived ?n1)"
    using assms(4,6) unfolding process_version_def r
    by (simp add: remaining_def append_bytes_def)
  have vr: "versionReceived ?n1 =
              (if 31 < unat v then Some ProtocolVersionError
               else if 3 < unat v then Some ProtocolTooHigh
               else if unat v < 3 then Some ProtocolDegraded
               else None, ?n1)"
    using assms(1,3)
    by (auto simp add: versionReceived_def ClientNegotiator_versionReceived_def
        BaseNegotiator_versionReceived_def py_gt_def py_lt_def MAX_PROTOCOL_VERSION_def a b)
  have ps: "process_syn now ?n1 = (Returned, ?n1)"
    using assms(5)
    by (simp add: process_syn_def getPeerPacket_def remaining_def HANDSHAKE_LENGTH_def)
  have "dataReceived_try now [v] n = process now ?n0"
    using assms(2) by (simp add: dataReceived_try_def)
  also have "\<dots> =
      (if 31 < unat v then Some ProtocolVersionError
       else if 3 < unat v then Some ProtocolTooHigh
       else if unat v < 3 then Some ProtocolDegraded
       else None, ?n1)"
    unfolding process_def pv vr
    by (simp add: after_hook_def ps)
  finally show ?thesis
    by (simp add: dataReceived_def)
qed

text \<open>
  The same client gets the version byte it speaks, a syn, an ack and at least one more
  byte in one piece: the observer hears of a \<open>HandshakeError\<close>, and of nothing else.
\<close>

lemma client_receives_trailing:
  assumes "cls n = ClientNegotiator" and "started n"
    and "peer_version n = None" and "peer_syn n = None" and "peer_ack n = None"
    and "buffer n = \<lparr>content = [], tell = 0\<rparr>"
    and "payload p1 = Some d1" and "length d1 = 1528"
    and "payload p2 = Some d2" and "length d2 = 1528"
    and "rest \<noteq> []"
  shows "observer (dataReceived now (protocolVersion n # encoded p1 @ encoded p2 @ rest) n) =
           observer n @ [HandshakeFailure HandshakeError]"
proof -
  let ?n3 = "n\<lparr>buffer := \<lparr>content = protocolVersion n # encoded p1 @ encoded p2 @ rest,
                            tell = 3073\<rparr>,
               peer_version := Some (protocolVersion n),
               peer_syn := Some (decoded now p1),
               peer_ack := Some (decoded now p2)\<rparr>"
  have "remaining (buffer ?n3) \<noteq> 0"
    using assms(7-11) by (simp add: remaining_def length_encoded)
  then have "ClientNegotiator_ackReceived now ?n3 = (Some HandshakeError, ?n3)"
    by (rule ClientNegotiator_ackReceived_trailing)
  then show ?thesis
    unfolding dataReceived_def client_receives_reply [OF assms(1-10)]
    by simp
qed

subsection \<open>The observer is told of failures by \<^verbatim>\<open>dataReceived\<close> only\<close>

lemma failures_append [simp]: "failures (xs @ ys) = failures xs @ failures ys"
  by (induction xs rule: failures.induct) simp_all

lemma and_then_failures:
  assumes "failures (observer (snd r)) = fs"
    and "\<And>m. failures (observer (snd (f m))) = failures (observer m)"
  shows "failures (observer (snd (and_then r f))) = fs"
  using assms by (cases r) (auto simp add: and_then_def split: option.split)

lemma writePacket_failures [simp]:
  "failures (observer (snd (writePacket p n))) = failures (observer n)"
  by (simp add: writePacket_def split: option.split prod.split)

lemma writeVersionAndSyn_failures [simp]:
  "failures (observer (snd (writeVersionAndSyn n))) = failures (observer n)"
  by (simp add: writeVersionAndSyn_def Let_def)

lemma buildSynPayload_failures [simp]:
  "failures (observer (snd (buildSynPayload n))) = failures (observer n)"
  by (simp add: buildSynPayload_def split: option.split prod.split)

lemma buildAckPayload_failures [simp]:
  "failures (observer (snd (buildAckPayload n))) = failures (observer n)"
  by (simp add: buildAckPayload_def split: option.split prod.split)

lemma writeAck_failures [simp]:
  "failures (observer (snd (writeAck n))) = failures (observer n)"
  unfolding writeAck_def
  by (rule and_then_failures) (simp_all add: Let_def)

lemma BaseNegotiator_versionReceived_failures [simp]:
  "failures (observer (snd (BaseNegotiator_versionReceived n))) = failures (observer n)"
  by (simp add: BaseNegotiator_versionReceived_def)

lemma versionReceived_failures [simp]:
  "failures (observer (snd (versionReceived n))) = failures (observer n)"
proof (cases "cls n")
  case BaseNegotiator
  then show ?thesis by (simp add: versionReceived_def)
next
  case ClientNegotiator
  have "failures (observer (snd (ClientNegotiator_versionReceived n))) = failures (observer n)"
    unfolding ClientNegotiator_versionReceived_def
    by (rule and_then_failures) simp_all
  with ClientNegotiator show ?thesis by (simp add: versionReceived_def)
next
  case ServerNegotiator
  have "failures (observer (snd (ServerNegotiator_versionReceived n))) = failures (observer n)"
    unfolding ServerNegotiator_versionReceived_def
    by (rule and_then_failures, simp, rule and_then_failures) simp_all
  with ServerNegotiator show ?thesis by (simp add: versionReceived_def)
qed

lemma synReceived_failures [simp]:
  "failures (observer (snd (synReceived now n))) = failures (observer n)"
  by (cases "cls n")
    (simp_all add: synReceived_def ServerNegotiator_synReceived_def split: option.split)

lemma ackReceived_failures [simp]:
  "failures (observer (snd (ackReceived now n))) = failures (observer n)"
  by (cases "cls n")
    (simp_all add: ackReceived_def ServerNegotiator_ackReceived_def
      ClientNegotiator_ackReceived_def split: option.split)

lemma getPeerPacket_observer [simp]:
  "observer (snd (getPeerPacket now n)) = observer n"
  by (simp add: getPeerPacket_def split: prod.split option.split)

lemma after_hook_snd [simp]: "snd (after_hook r) = snd r"
  by (cases r) (simp add: after_hook_def split: option.split)

lemma process_version_failures [simp]:
  "failures (observer (snd (process_version n))) = failures (observer n)"
  by (simp add: process_version_def split: prod.split sum.split)

lemma process_syn_failures [simp]:
  "failures (observer (snd (process_syn now n))) = failures (observer n)"
proof -
  obtain r m where g: "getPeerPacket now n = (r, m)"
    by (cases "getPeerPacket now n")
  have "observer m = observer n"
    using getPeerPacket_observer [of now n] g by simp
  then show ?thesis
    by (simp add: process_syn_def g split: sum.split option.split)
qed

lemma process_ack_failures [simp]:
  "failures (observer (snd (process_ack now n))) = failures (observer n)"
proof -
  obtain r m where g: "getPeerPacket now n = (r, m)"
    by (cases "getPeerPacket now n")
  have "observer m = observer n"
    using getPeerPacket_observer [of now n] g by simp
  then show ?thesis
    by (simp add: process_ack_def g split: sum.split option.split)
qed

lemma process_failures [simp]:
  "failures (observer (snd (process now n))) = failures (observer n)"
proof -
  obtain f1 n1 where a: "process_version n = (f1, n1)" by (cases "process_version n")
  obtain f2 n2 where b: "process_syn now n1 = (f2, n2)" by (cases "process_syn now n1")
  obtain f3 n3 where c: "process_ack now n2 = (f3, n3)" by (cases "process_ack now n2")
  have a': "failures (observer n1) = failures (observer n)"
    using process_version_failures [of n] a by simp
  have b': "failures (observer n2) = failures (observer n1)"
    using process_syn_failures [of now n1] b by simp
  have c': "failures (observer n3) = failures (observer n2)"
    using process_ack_failures [of now n2] c by simp
  show ?thesis
    using a' b' c'
    by (simp add: process_def a b c split: flow.split)
qed

lemma dataReceived_try_failures:
  "failures (observer (snd (dataReceived_try now d n))) = failures (observer n)"
  by (simp add: dataReceived_try_def)

subsection \<open>The example run\<close>

lemma example_client_eq:
  "example_client =
     \<lparr>cls = ClientNegotiator, protocolVersion = 3,
      observer = [Write (3 # encoded \<lparr>first = Some 7, second = Some 0,
                                       payload = Some (replicate 1528 1),
                                       timestamp = Some 1000\<rparr>)],
      started = True, buffer = \<lparr>content = [], tell = 0\<rparr>, peer_version = None,
      my_syn = Some \<lparr>first = Some 7, second = Some 0, payload = Some (replicate 1528 1),
                     timestamp = Some 1000\<rparr>,
      my_ack = None, peer_syn = None, peer_ack = None,
      random = snd (generateBytes 1528 (\<lambda>i. 1))\<rparr>"
proof -
  have "\<not> started (Negotiator_init ClientNegotiator (\<lambda>i. 1))"
    by (simp add: Negotiator_init_def)
  from ClientNegotiator_start_eq [OF this, of 1000 "Some 7" "Some 0"] show ?thesis
    by (simp add: example_client_def Negotiator_init_def generateBytes_const
        RTMP_PROTOCOL_VERSION_def)
qed

lemma example_run:
  "dataReceived_try 1001 (example_reply @ rest) example_client =
     (case ClientNegotiator_ackReceived 1001 (example_acked rest) of
        (Some e, n') \<Rightarrow> (Some e, n')
      | (None, n') \<Rightarrow> (None, n'\<lparr>observer := observer n' @ [HandshakeSuccess]\<rparr>))"
proof -
  have "dataReceived_try 1001
          (protocolVersion example_client # encoded example_syn @ encoded example_ack @ rest)
          example_client =
        (case ClientNegotiator_ackReceived 1001
                (example_client\<lparr>buffer := \<lparr>content = protocolVersion example_client #
                                     encoded example_syn @ encoded example_ack @ rest,
                                   tell = 3073\<rparr>,
                   peer_version := Some (protocolVersion example_client),
                   peer_syn := Some (decoded 1001 example_syn),
                   peer_ack := Some (decoded 1001 example_ack)\<rparr>) of
           (Some e, n') \<Rightarrow> (Some e, n')
         | (None, n') \<Rightarrow> (None, n'\<lparr>observer := observer n' @ [HandshakeSuccess]\<rparr>))"
    by (rule client_receives_reply [where ?d1.0 = "replicate 1528 9" and ?d2.0 = "replicate 1528 1"])
      (simp_all add: example_client_eq example_syn_def example_ack_def)
  moreover have "protocolVersion example_client = 3"
    by (simp add: example_client_eq)
  ultimately show ?thesis
    by (simp add: example_reply_def example_acked_def)
qed

lemma length_example_reply: "length example_reply = 3073"
  by (simp add: example_reply_def length_encoded example_syn_def example_ack_def)

lemma example_trailing:
  assumes "rest \<noteq> []"
  shows "observer (dataReceived 1001 (example_reply @ rest) example_client) =
           observer example_client @ [HandshakeFailure HandshakeError]"
proof -
  have "remaining (buffer (example_acked rest)) \<noteq> 0"
    using assms by (simp add: example_acked_def remaining_def length_example_reply)
  then have "ClientNegotiator_ackReceived 1001 (example_acked rest)
               = (Some HandshakeError, example_acked rest)"
    by (rule ClientNegotiator_ackReceived_trailing)
  then show ?thesis
    by (simp add: dataReceived_def example_run) (simp add: example_acked_def)
qed

lemma example_acked_fields:
  "my_syn (example_acked rest) =
     Some \<lparr>first = Some 7, second = Some 0, payload = Some (replicate 1528 1),
           timestamp = Some 1000\<rparr>"
  "peer_syn (example_acked rest) = Some (decoded 1001 example_syn)"
  "peer_ack (example_acked rest) = Some (decoded 1001 example_ack)"
  "observer (example_acked rest) = observer example_client"
  "remaining (buffer (example_acked rest)) = length rest"
  by (simp_all add: example_acked_def example_client_eq remaining_def length_example_reply)

section \<open>The claims\<close>




text \<open>
  C2. For a client negotiator whose own \<^verbatim>\<open>protocolVersion\<close> is 3 and that has received
  the version byte \<open>v\<close> of the peer, \<^verbatim>\<open>versionReceived\<close> raises \<open>ProtocolVersionError\<close>
  exactly when \<open>v > 31\<close>, \<open>ProtocolTooHigh\<close> exactly when \<open>3 < v \<le> 31\<close>,
  \<open>ProtocolDegraded\<close> exactly when \<open>v < 3\<close>, and nothing exactly when \<open>v = 3\<close>; it
  leaves the negotiator as it was.
\<close>

theorem ClientNegotiator_versionReceived_errors:
  assumes "protocolVersion n = 3" and "peer_version n = Some v"
  shows "(fst (ClientNegotiator_versionReceived n) = Some ProtocolVersionError \<longleftrightarrow> 31 < unat v)
       \<and> (fst (ClientNegotiator_versionReceived n) = Some ProtocolTooHigh \<longleftrightarrow> 3 < unat v \<and> unat v \<le> 31)
       \<and> (fst (ClientNegotiator_versionReceived n) = Some ProtocolDegraded \<longleftrightarrow> unat v < 3)
       \<and> (fst (ClientNegotiator_versionReceived n) = None \<longleftrightarrow> unat v = 3)
       \<and> snd (ClientNegotiator_versionReceived n) = n"
proof -
  have a: "(v > 31) = (31 < unat v)" "(v > 3) = (3 < unat v)" "(v < 3) = (unat v < 3)"
    by (simp_all add: word_less_nat_alt)
  have b: "(v = 3) = (unat v = 3)"
    by (simp add: word_unat_eq_iff)
  show ?thesis
    using assms
    by (auto simp add: ClientNegotiator_versionReceived_def BaseNegotiator_versionReceived_def
        py_gt_def py_lt_def MAX_PROTOCOL_VERSION_def a b)
qed

theorem ClientNegotiator_versionReceived_errors_witness:
  "fst (ClientNegotiator_versionReceived (example_client\<lparr>peer_version := Some 32\<rparr>))
     = Some ProtocolVersionError
   \<and> fst (ClientNegotiator_versionReceived (example_client\<lparr>peer_version := Some 31\<rparr>))
     = Some ProtocolTooHigh
   \<and> fst (ClientNegotiator_versionReceived (example_client\<lparr>peer_version := Some 2\<rparr>))
     = Some ProtocolDegraded
   \<and> fst (ClientNegotiator_versionReceived (example_client\<lparr>peer_version := Some 3\<rparr>)) = None"
  using ClientNegotiator_versionReceived_errors [of "example_client\<lparr>peer_version := Some 32\<rparr>" 32]
    ClientNegotiator_versionReceived_errors [of "example_client\<lparr>peer_version := Some 31\<rparr>" 31]
    ClientNegotiator_versionReceived_errors [of "example_client\<lparr>peer_version := Some 2\<rparr>" 2]
    ClientNegotiator_versionReceived_errors [of "example_client\<lparr>peer_version := Some 3\<rparr>" 3]
  by (simp add: example_client_eq)

text \<open>
  C3. A packet whose payload is a byte string is encoded without a check of the
  length: into a fresh stream \<^verbatim>\<open>encode\<close> writes \<^verbatim>\<open>first\<close> and \<^verbatim>\<open>second\<close>
  (0 when unset or 0) as big-endian 32-bit integers and then the payload, and raises
  nothing. When the payload has exactly 1528 bytes, decoding these bytes gives a
  packet with the same \<^verbatim>\<open>first\<close>, \<^verbatim>\<open>second\<close> (unset ones as 0) and payload.
\<close>

theorem Packet_roundtrip:
  assumes "payload p = Some d"
  shows "Packet_encode p (BufferedByteStream_init []) =
           (None, \<lparr>content = ulong_bytes (or_zero (first p)) @ ulong_bytes (or_zero (second p)) @ d,
                   tell = 8 + length d\<rparr>)
         \<and> (length d = HANDSHAKE_LENGTH - 8 \<longrightarrow>
              fst (Packet_decode q (BufferedByteStream_init (encoded p))) = None
              \<and> first (fst (snd (Packet_decode q (BufferedByteStream_init (encoded p)))))
                    = Some (or_zero (first p))
              \<and> second (fst (snd (Packet_decode q (BufferedByteStream_init (encoded p)))))
                    = Some (or_zero (second p))
              \<and> payload (fst (snd (Packet_decode q (BufferedByteStream_init (encoded p)))))
                    = Some d)"
proof -
  have fresh: "tell (BufferedByteStream_init []) = length (content (BufferedByteStream_init []))"
    by (simp add: BufferedByteStream_init_def)
  have enc: "Packet_encode p (BufferedByteStream_init []) =
           (None, \<lparr>content = ulong_bytes (or_zero (first p)) @ ulong_bytes (or_zero (second p)) @ d,
                   tell = 8 + length d\<rparr>)"
    using Packet_encode_at_end [OF fresh assms] by (simp add: BufferedByteStream_init_def)
  show ?thesis
  proof (cases "length d = HANDSHAKE_LENGTH - 8")
    case True
    from decode_encoded [OF assms True, of q] enc show ?thesis by simp
  next
    case False
    with enc show ?thesis by simp
  qed
qed

theorem Packet_roundtrip_witness:
  "fst (Packet_encode example_syn (BufferedByteStream_init [])) = None
   \<and> fst (Packet_decode (Packet_init 1001 None None None None)
            (BufferedByteStream_init (encoded example_syn))) = None
   \<and> first (fst (snd (Packet_decode (Packet_init 1001 None None None None)
            (BufferedByteStream_init (encoded example_syn))))) = Some 55
   \<and> payload (fst (snd (Packet_decode (Packet_init 1001 None None None None)
            (BufferedByteStream_init (encoded example_syn))))) = Some (replicate 1528 9)"
proof -
  have a: "payload example_syn = Some (replicate 1528 9)"
    by (simp add: example_syn_def)
  show ?thesis
    using Packet_roundtrip [OF a, of "Packet_init 1001 None None None None"]
    by (simp add: HANDSHAKE_LENGTH_def example_syn_def or_zero_def)
qed

text \<open>
  The claim as it was stated does not hold: a payload of three bytes is not of 1528
  bytes, and \<^verbatim>\<open>encode\<close> writes it and raises nothing.
\<close>

theorem Packet_encode_short_payload:
  "length [1, 2, 3 :: byte] \<noteq> HANDSHAKE_LENGTH - 8
   \<and> Packet_encode \<lparr>first = Some 1, second = Some 2, payload = Some [1, 2, 3], timestamp = Some 1000\<rparr>
        (BufferedByteStream_init [])
       = (None, \<lparr>content = [0, 0, 0, 1, 0, 0, 0, 2, 1, 2, 3], tell = 11\<rparr>)"
  by (simp add: Packet_encode_def BufferedByteStream_init_def write_ulong_def write_bytes_def
      ulong_bytes_def or_zero_def HANDSHAKE_LENGTH_def Let_def)

text \<open>
  C4. Whatever the body of the \<^verbatim>\<open>try\<close> in \<^verbatim>\<open>dataReceived\<close> raises, for a negotiator of
  any class, started or not, \<^verbatim>\<open>dataReceived\<close> returns normally, and the observer has
  then received, after the calls that the body made, exactly one \<^verbatim>\<open>handshakeFailure\<close>
  with that exception; when the body raises nothing, it has received none. The body
  itself never calls \<^verbatim>\<open>handshakeFailure\<close>.
\<close>

theorem dataReceived_reports_once:
  "observer (dataReceived now d n) =
     observer (snd (dataReceived_try now d n)) @
     (case fst (dataReceived_try now d n) of None \<Rightarrow> [] | Some e \<Rightarrow> [HandshakeFailure e])
   \<and> failures (observer (snd (dataReceived_try now d n))) = failures (observer n)
   \<and> failures (observer (dataReceived now d n)) =
       failures (observer n) @
       (case fst (dataReceived_try now d n) of None \<Rightarrow> [] | Some e \<Rightarrow> [e])"
  by (cases "dataReceived_try now d n")
    (use dataReceived_try_failures [of now d n] in
      \<open>auto simp add: dataReceived_def split: option.split\<close>)

theorem dataReceived_reports_once_witness:
  "failures (observer (dataReceived 1001 [3] (Negotiator_init ServerNegotiator (\<lambda>i. 1))))
     = [HandshakeError]
   \<and> failures (observer (dataReceived 1001 (example_reply @ [255]) example_client))
     = [HandshakeError]"
proof -
  have a: "dataReceived_try 1001 [3] (Negotiator_init ServerNegotiator (\<lambda>i. 1))
             = (Some HandshakeError, Negotiator_init ServerNegotiator (\<lambda>i. 1))"
    by (simp add: dataReceived_try_def Negotiator_init_def)
  have b: "dataReceived_try 1001 (example_reply @ [255]) example_client
             = (Some HandshakeError, example_acked [255])"
    by (simp add: example_run ClientNegotiator_ackReceived_trailing example_acked_fields)
  show ?thesis
    using dataReceived_reports_once [of 1001 "[3]" "Negotiator_init ServerNegotiator (\<lambda>i. 1)"]
      dataReceived_reports_once [of 1001 "example_reply @ [255]" example_client]
    by (simp add: a b) (simp add: Negotiator_init_def example_client_eq)
qed



text \<open>
  C6. If bytes are left in the buffer of a client negotiator when \<^verbatim>\<open>ackReceived\<close> runs,
  that is after the peer's ack has been read, it raises \<open>HandshakeError\<close>, the generic
  error of the handshake, and changes nothing. \<open>HandshakeError\<close> is the parent of
  \<open>VerificationError\<close>, not an instance of it.
\<close>

theorem ClientNegotiator_trailing_data:
  assumes "remaining (buffer n) \<noteq> 0"
  shows "ClientNegotiator_ackReceived now n = (Some HandshakeError, n)
       \<and> \<not> isinstance HandshakeError VerificationError
       \<and> isinstance VerificationError HandshakeError"
  using assms
  by (simp add: ClientNegotiator_ackReceived_def isinstance_def)

theorem ClientNegotiator_trailing_data_witness:
  "ClientNegotiator_ackReceived 1001 (example_acked [0, 0])
     = (Some HandshakeError, example_acked [0, 0])"
proof -
  have a: "remaining (buffer (example_acked [0, 0])) \<noteq> 0"
    by (simp add: example_acked_fields)
  show ?thesis
    using ClientNegotiator_trailing_data [OF a, of 1001] by simp
qed

text \<open>
  The claim as it was stated does not hold: two bytes after the ack of the example
  make the observer hear of a \<open>HandshakeError\<close>, which is not a
  \<open>VerificationError\<close>.
\<close>

theorem trailing_data_not_VerificationError:
  "observer (dataReceived 1001 (example_reply @ [0, 0]) example_client)
     = observer example_client @ [HandshakeFailure HandshakeError]
   \<and> HandshakeError \<noteq> VerificationError
   \<and> \<not> isinstance HandshakeError VerificationError"
  using example_trailing [of "[0, 0]"]
  by (simp add: isinstance_def)

text \<open>
  C7. On \<^verbatim>\<open>handshakeSuccess\<close> the session builds the decoder, drops the negotiator, moves
  to the streaming state, and the input that the new decoder has received is exactly
  the bytes that the negotiator had in its buffer and had not read.
\<close>

theorem handshakeSuccess_replays:
  assumes "handshaker s = Some n"
  shows "fst (handshakeSuccess now s) = None
       \<and> state (snd (handshakeSuccess now s)) = STREAM
       \<and> handshaker (snd (handshakeSuccess now s)) = None
       \<and> map_option concat (decoder (snd (handshakeSuccess now s))) = Some (residual n)"
  using assms
  by (simp add: handshakeSuccess_def Session_dataReceived_def decodeStream_def Let_def)

theorem handshakeSuccess_replays_witness:
  "decoder (snd (handshakeSuccess 1001
      \<lparr>state = HANDSHAKE,
       handshaker = Some ((Negotiator_init ServerNegotiator (\<lambda>i. 1))
                            \<lparr>buffer := \<lparr>content = [1, 2, 3, 4, 5], tell = 2\<rparr>\<rparr>),
       decoder = None, encoder_built = False\<rparr>)) = Some [[3, 4, 5]]"
  using handshakeSuccess_replays
    [of "\<lparr>state = HANDSHAKE,
          handshaker = Some ((Negotiator_init ServerNegotiator (\<lambda>i. 1))
                               \<lparr>buffer := \<lparr>content = [1, 2, 3, 4, 5], tell = 2\<rparr>\<rparr>),
          decoder = None, encoder_built = False\<rparr>"
        "(Negotiator_init ServerNegotiator (\<lambda>i. 1))\<lparr>buffer := \<lparr>content = [1, 2, 3, 4, 5], tell = 2\<rparr>\<rparr>"
        1001]
  by (simp add: handshakeSuccess_def Session_dataReceived_def decodeStream_def residual_def Let_def)

text \<open>
  C8. A response of a kind that is neither the success kind nor the error kind, for a
  call id that is pending, removes the call from the pending calls and leaves every
  result handle as it was: the handle of the call is neither resolved nor rejected.
\<close>

theorem handleResponse_unknown_kind:
  assumes "isCallActive callId h" and "kind \<noteq> RESULT" and "kind \<noteq> ERROR"
  shows "\<not> isCallActive callId (handleResponse kind callId args cmd h)
       \<and> handles (handleResponse kind callId args cmd h) = handles h"
  using assms
  by (auto simp add: handleResponse_def finishCall_def isCallActive_def split: option.split)

theorem handleResponse_unknown_kind_witness:
  "isCallActive 1 (snd (callWithResult ''some_remote_method'' [] None (CallHandler_init :: string CallHandler)))
   \<and> \<not> isCallActive 1
         (handleResponse ''foo'' 1 [''some result''] None
            (snd (callWithResult ''some_remote_method'' [] None CallHandler_init)))
   \<and> handles (handleResponse ''foo'' 1 [''some result''] None
                (snd (callWithResult ''some_remote_method'' [] None CallHandler_init))) 1
       = Some Pending"
proof -
  let ?h = "snd (callWithResult ''some_remote_method'' [] None (CallHandler_init :: string CallHandler))"
  have a: "isCallActive 1 ?h"
    by (simp add: callWithResult_def initiateCall_def CallHandler_init_def isCallActive_def Let_def)
  have b: "''foo'' \<noteq> RESULT" "''foo'' \<noteq> ERROR"
    by (simp_all add: RESULT_def ERROR_def)
  have c: "handles ?h 1 = Some Pending"
    by (simp add: callWithResult_def initiateCall_def CallHandler_init_def Let_def)
  show ?thesis
    using handleResponse_unknown_kind [OF a b, of "[''some result'']" None] a c by simp
qed

text \<open>
  C9. \<^verbatim>\<open>registerStream(id, handle)\<close> fails with the range error for every id below 0 or
  above 65535; for an id in the range, with the type error when the handle does not
  have the stream capability set; for an id in the range and such a handle, with the
  already-registered error when the id is occupied. The registry is unchanged
  whenever it fails. One handle registered under two different free ids is stored
  under both.
\<close>

theorem registerStream_failures:
  "(streamId < 0 \<or> 65535 < streamId \<longrightarrow> registerStream streamId h m = (Some ValueError, m))
   \<and> (0 \<le> streamId \<and> streamId \<le> 65535 \<and> \<not> provides_IStream h \<longrightarrow>
        registerStream streamId h m = (Some TypeError, m))
   \<and> (0 \<le> streamId \<and> streamId \<le> 65535 \<and> provides_IStream h \<and> m streamId \<noteq> None \<longrightarrow>
        registerStream streamId h m = (Some IndexError, m))
   \<and> (fst (registerStream streamId h m) \<noteq> None \<longrightarrow> snd (registerStream streamId h m) = m)
   \<and> (0 \<le> streamId \<and> streamId \<le> 65535 \<and> 0 \<le> other \<and> other \<le> 65535 \<and> streamId \<noteq> other
        \<and> provides_IStream h \<and> m streamId = None \<and> m other = None \<longrightarrow>
        fst (registerStream streamId h m) = None
        \<and> fst (registerStream other h (snd (registerStream streamId h m))) = None
        \<and> snd (registerStream other h (snd (registerStream streamId h m))) streamId = Some h
        \<and> snd (registerStream other h (snd (registerStream streamId h m))) other = Some h)"
  by (simp add: registerStream_def MAX_STREAMS_def)

theorem registerStream_failures_witness:
  "registerStream (- 1) \<lparr>ident = 0, accepts_messages = True, pausable = True\<rparr> Map.empty
     = (Some ValueError, Map.empty)
   \<and> registerStream 65536 \<lparr>ident = 0, accepts_messages = True, pausable = True\<rparr> Map.empty
     = (Some ValueError, Map.empty)
   \<and> registerStream 0 \<lparr>ident = 0, accepts_messages = False, pausable = False\<rparr> Map.empty
     = (Some TypeError, Map.empty)
   \<and> registerStream 3 \<lparr>ident = 0, accepts_messages = True, pausable = True\<rparr>
        [3 \<mapsto> \<lparr>ident = 9, accepts_messages = True, pausable = True\<rparr>]
     = (Some IndexError, [3 \<mapsto> \<lparr>ident = 9, accepts_messages = True, pausable = True\<rparr>])
   \<and> snd (registerStream 2 \<lparr>ident = 0, accepts_messages = True, pausable = True\<rparr>
        (snd (registerStream 1 \<lparr>ident = 0, accepts_messages = True, pausable = True\<rparr> Map.empty))) 1
     = Some \<lparr>ident = 0, accepts_messages = True, pausable = True\<rparr>
   \<and> snd (registerStream 2 \<lparr>ident = 0, accepts_messages = True, pausable = True\<rparr>
        (snd (registerStream 1 \<lparr>ident = 0, accepts_messages = True, pausable = True\<rparr> Map.empty))) 2
     = Some \<lparr>ident = 0, accepts_messages = True, pausable = True\<rparr>"
  using registerStream_failures
      [of "- 1" "\<lparr>ident = 0, accepts_messages = True, pausable = True\<rparr>" Map.empty 0]
    registerStream_failures
      [of 65536 "\<lparr>ident = 0, accepts_messages = True, pausable = True\<rparr>" Map.empty 0]
    registerStream_failures
      [of 0 "\<lparr>ident = 0, accepts_messages = False, pausable = False\<rparr>" Map.empty 0]
    registerStream_failures
      [of 3 "\<lparr>ident = 0, accepts_messages = True, pausable = True\<rparr>"
          "[3 \<mapsto> \<lparr>ident = 9, accepts_messages = True, pausable = True\<rparr>]" 0]
    registerStream_failures
      [of 1 "\<lparr>ident = 0, accepts_messages = True, pausable = True\<rparr>" Map.empty 2]
  by (simp add: provides_IStream_def)

text \<open>
  C10. A packet built with a time stamp that is \<^verbatim>\<open>0\<close> or absent gets the reading of
  the clock as its time stamp, and one built with another time stamp keeps it. So the
  time stamp of a packet is 0 after construction exactly when the given one was 0 or
  absent and the clock itself read 0.
\<close>

theorem Packet_init_timestamp:
  "(\<not> truthy t \<longrightarrow> timestamp (Packet_init now f s p t) = Some now)
   \<and> (truthy t \<longrightarrow> timestamp (Packet_init now f s p t) = t)
   \<and> (timestamp (Packet_init now f s p t) = Some 0 \<longleftrightarrow> \<not> truthy t \<and> now = 0)"
  by (cases t) (auto simp add: Packet_init_def truthy_def)

theorem Packet_init_timestamp_witness:
  "timestamp (Packet_init 1000 None None None (Some 0)) = Some 1000
   \<and> timestamp (Packet_init 1000 None None None (Some 5)) = Some 5
   \<and> timestamp (Packet_init 0 None None None None) = Some 0"
  using Packet_init_timestamp [of "Some 0" 1000 None None None]
    Packet_init_timestamp [of "Some 5" 1000 None None None]
    Packet_init_timestamp [of None 0 None None None]
  by (simp add: truthy_def)

text \<open>
  The claim as it was stated does not hold: with a clock that reads 0, a packet built
  with the time stamp 0 has the time stamp 0.
\<close>

theorem Packet_init_zero_clock:
  "timestamp (Packet_init 0 None None None (Some 0)) = Some 0"
  by (simp add: Packet_init_def truthy_def)

end
